theory Spec2Isabelle
  imports Complex_Main
begin

section \<open>JavaScript values\<close>

text \<open>
  The client is TypeScript, but the values it takes out of a parsed response body are of
  type \<^verbatim>\<open>any\<close>: whatever the server put there reaches the state. Such values are
  modelled by \<open>jsval\<close>. Strings are lists of code units (the model has the code units
  below 256). Of a number the program only ever asks whether it is zero.
\<close>

datatype jsval =
    Undefined
  | Null
  | Bool bool
  | Num rat
  | Str string
  | Arr "jsval list"
  | Obj "(string \<times> jsval) list"

text \<open>Conversion to a boolean, as \<^verbatim>\<open>if (v)\<close>, \<^verbatim>\<open>v ? a : b\<close>, \<^verbatim>\<open>v || w\<close> and \<^verbatim>\<open>v && w\<close> do it.\<close>

fun truthy :: "jsval \<Rightarrow> bool" where
  "truthy Undefined = False"
| "truthy Null = False"
| "truthy (Bool b) = b"
| "truthy (Num n) = (n \<noteq> 0)"
| "truthy (Str s) = (s \<noteq> [])"
| "truthy (Arr vs) = True"
| "truthy (Obj fs) = True"

text \<open>
  Reading a property \<^verbatim>\<open>v.k\<close>. On \<^verbatim>\<open>null\<close> and \<^verbatim>\<open>undefined\<close> it throws a TypeError
  (\<open>None\<close>); on an object without the key, and on a boolean, number, string or array, it
  gives \<^verbatim>\<open>undefined\<close> (the program reads the keys \<^verbatim>\<open>error\<close>, \<^verbatim>\<open>message\<close> and
  \<^verbatim>\<open>detail\<close> only, which no prototype defines).
\<close>

fun get_prop :: "jsval \<Rightarrow> string \<Rightarrow> jsval option" where
  "get_prop Undefined k = None"
| "get_prop Null k = None"
| "get_prop (Obj fs) k = Some (case map_of fs k of None \<Rightarrow> Undefined | Some v \<Rightarrow> v)"
| "get_prop (Bool b) k = Some Undefined"
| "get_prop (Num n) k = Some Undefined"
| "get_prop (Str s) k = Some Undefined"
| "get_prop (Arr vs) k = Some Undefined"

text \<open>An optional string argument (\<^verbatim>\<open>password?: string\<close>) is truthy when given and not empty.\<close>

fun truthy_string :: "string option \<Rightarrow> bool" where
  "truthy_string None = False"
| "truthy_string (Some s) = (s \<noteq> [])"


section \<open>Strings: trimming and the two regular expressions of page.tsx\<close>

text \<open>
  \<^verbatim>\<open>String.prototype.trim\<close> removes white space and line terminators at both ends. Among
  the code units below 256 these are tab, line feed, vertical tab, form feed, carriage
  return, space and the no-break space.
\<close>

definition is_whitespace :: "char \<Rightarrow> bool" where
  "is_whitespace c = (c \<in> {CHR 0x09, CHR 0x0A, CHR 0x0B, CHR 0x0C, CHR 0x0D, CHR 0x20, CHR 0xA0})"

definition trim :: "string \<Rightarrow> string" where
  "trim s = rev (dropWhile is_whitespace (rev (dropWhile is_whitespace s)))"

text \<open>In a regular expression without the \<^verbatim>\<open>s\<close> flag, \<^verbatim>\<open>.\<close> matches no line terminator.\<close>

definition is_line_terminator :: "char \<Rightarrow> bool" where
  "is_line_terminator c = (c = CHR 0x0A \<or> c = CHR 0x0D)"

text \<open>
  The expression of line 88, \<^verbatim>\<open>/filename="?(.+?)"?$/\<close>, in three layers.
  \<open>match_group_to_end r\<close> matches \<^verbatim>\<open>(.+?)"?$\<close> against the whole of \<open>r\<close> and gives
  the group: the lazy \<^verbatim>\<open>.+?\<close> takes the fewest characters (at least one) after which an
  optional quote reaches the end of the input, so it leaves a final quote out whenever
  something is left before it.
\<close>

definition match_group_to_end :: "string \<Rightarrow> string option" where
  "match_group_to_end r =
     (if r \<noteq> [] \<and> last r = CHR 0x22 \<and> butlast r \<noteq> [] \<and> \<not> list_ex is_line_terminator (butlast r)
      then Some (butlast r)
      else if r \<noteq> [] \<and> \<not> list_ex is_line_terminator r then Some r
      else None)"

text \<open>
  \<open>match_after_filename r\<close> matches \<^verbatim>\<open>"?(.+?)"?$\<close> against \<open>r\<close>: the greedy \<^verbatim>\<open>"?\<close>
  first consumes an opening quote, and gives it back when the rest cannot match.
\<close>

definition match_after_filename :: "string \<Rightarrow> string option" where
  "match_after_filename r =
     (case r of
        [] \<Rightarrow> None
      | c # r' \<Rightarrow>
          if c = CHR 0x22
          then (case match_group_to_end r' of Some g \<Rightarrow> Some g | None \<Rightarrow> match_group_to_end r)
          else match_group_to_end r)"

text \<open>
  \<open>match_filename d\<close> is \<^verbatim>\<open>d.match(/filename="?(.+?)"?$/)\<close>: the leftmost start at which
  the expression matches, \<open>None\<close> for \<^verbatim>\<open>null\<close>, otherwise the group \<^verbatim>\<open>match[1]\<close>.
\<close>

fun match_filename :: "string \<Rightarrow> string option" where
  "match_filename [] = None"
| "match_filename (c # cs) =
     (if take 9 (c # cs) = ''filename=''
      then (case match_after_filename (drop 9 (c # cs)) of
              Some g \<Rightarrow> Some g
            | None \<Rightarrow> match_filename cs)
      else match_filename cs)"

text \<open>
  The expression of line 91, \<^verbatim>\<open>/\.(pdf|png|jpg|jpeg|bmp|tiff?)$/i\<close>. Without the \<^verbatim>\<open>u\<close>
  flag, ignoring case never identifies a code unit of 128 or more with an ASCII letter,
  so comparing after \<open>to_lower\<close> on the ASCII capitals is what \<^verbatim>\<open>i\<close> does here.
\<close>

definition to_lower :: "char \<Rightarrow> char" where
  "to_lower c = (if 65 \<le> (of_char c :: nat) \<and> (of_char c :: nat) \<le> 90
                 then char_of ((of_char c :: nat) + 32) else c)"

definition extensions :: "string list" where
  "extensions = [''pdf'', ''png'', ''jpg'', ''jpeg'', ''bmp'', ''tif'', ''tiff'']"

text \<open>
  \<open>strip_extension n\<close> is \<^verbatim>\<open>n.replace(/\.(pdf|png|jpg|jpeg|bmp|tiff?)$/i, '')\<close>: the
  leftmost dot followed by exactly one of the extensions up to the end of the name is
  removed together with what follows it; a name with no such ending is returned as it is.
\<close>

fun strip_extension :: "string \<Rightarrow> string" where
  "strip_extension [] = []"
| "strip_extension (c # cs) =
     (if c = CHR ''.'' \<and> map to_lower cs \<in> set extensions then []
      else c # strip_extension cs)"

text \<open>\<^verbatim>\<open>Math.round(d / 1000)\<close> on an integer \<open>d\<close> of milliseconds: halves round upwards.\<close>

definition round_seconds :: "int \<Rightarrow> int" where
  "round_seconds d = (d + 500) div 1000"


section \<open>The page component: state, request and response\<close>

datatype step = Upload | Configure | Password | Processing | Result

record js_file =
  name :: string
  bytes :: string

record blob =
  blob_type :: string
  blob_bytes :: string

text \<open>
  The nine \<^verbatim>\<open>useState\<close> cells of \<^verbatim>\<open>Home\<close> (lines 14 to 22), and with them the part of
  the browser they act on: the registry of object URLs, which \<^verbatim>\<open>URL.createObjectURL\<close>
  extends with a URL never handed out before (URLs are numbered here) and
  \<^verbatim>\<open>URL.revokeObjectURL\<close> shrinks. The cells \<open>error\<close> and \<open>passwordError\<close> are declared
  \<^verbatim>\<open>string | null\<close> but are assigned values of type \<^verbatim>\<open>any\<close>, hence \<open>jsval\<close>.
\<close>

record page =
  step :: step
  selectedFile :: "js_file option"
  redactionLevel :: string
  redactedPdfUrl :: "nat option"
  downloadFilename :: string
  error :: jsval
  processingTime :: "int option"
  pdfPassword :: string
  passwordError :: jsval
  objectURLs :: "(nat \<times> blob) list"
  nextURL :: nat

definition initial :: page where
  "initial = \<lparr> step = Upload, selectedFile = None, redactionLevel = ''medium'',
               redactedPdfUrl = None, downloadFilename = ''redacted_document.pdf'',
               error = Null, processingTime = None, pdfPassword = [],
               passwordError = Null, objectURLs = [], nextURL = 0 \<rparr>"

definition createObjectURL :: "blob \<Rightarrow> page \<Rightarrow> nat \<times> page" where
  "createObjectURL b s =
     (nextURL s, s\<lparr> objectURLs := (nextURL s, b) # objectURLs s, nextURL := Suc (nextURL s) \<rparr>)"

definition revokeObjectURL :: "nat \<Rightarrow> page \<Rightarrow> page" where
  "revokeObjectURL u s = s\<lparr> objectURLs := filter (\<lambda>e. fst e \<noteq> u) (objectURLs s) \<rparr>"

text \<open>A multipart form: the fields in the order they were appended.\<close>

datatype form_value = FileValue js_file | TextValue string

type_synonym form_data = "(string \<times> form_value) list"

record response =
  status :: nat
  headers :: "(string \<times> string) list"
  data :: string

text \<open>
  What the network does with a request: no response at all, or a response. With
  \<^verbatim>\<open>validateStatus: (status) => status < 500\<close> (line 49) \<^verbatim>\<open>axios.post\<close> returns the
  response when its status is below 500 and throws otherwise (\<open>None\<close>).
\<close>

datatype outcome = NoResponse | Response response

definition validateStatus :: "nat \<Rightarrow> bool" where
  "validateStatus st = (st < 500)"

fun axios_post :: "outcome \<Rightarrow> response option" where
  "axios_post NoResponse = None"
| "axios_post (Response r) = (if validateStatus (status r) then Some r else None)"


section \<open>The handlers of page.tsx\<close>

definition handleFileUpload :: "js_file \<Rightarrow> page \<Rightarrow> page" where
  "handleFileUpload f s = s\<lparr> selectedFile := Some f, error := Null, step := Configure \<rparr>"

text \<open>
  The body of \<^verbatim>\<open>doRedact\<close> after the request has been answered, block by block. The
  parameter \<open>parse\<close> is \<^verbatim>\<open>JSON.parse\<close> applied to the text of the body, \<open>None\<close> when it
  throws a SyntaxError.

  Lines 53 to 64. The block ends in one of three ways: something was thrown, the handler
  returned with the password step set, or control falls through to line 67.
\<close>

datatype 'a block = Thrown | Returned 'a | FellThrough

definition on_locked ::
  "(string \<Rightarrow> jsval option) \<Rightarrow> string option \<Rightarrow> response \<Rightarrow> page \<Rightarrow> page block" where
  "on_locked parse password r s =
     (if status r = 423 then
        (case parse (data r) of
           None \<Rightarrow> Thrown
         | Some errorData \<Rightarrow>
             (case get_prop errorData ''error'' of
                None \<Rightarrow> Thrown
              | Some e \<Rightarrow>
                  if e = Str ''password_required'' then
                    (if truthy_string password then
                       (case get_prop errorData ''message'' of
                          None \<Rightarrow> Thrown
                        | Some message \<Rightarrow>
                            Returned (s\<lparr> passwordError := message, pdfPassword := [],
                                         step := Password \<rparr>))
                     else
                       Returned (s\<lparr> passwordError := Null, pdfPassword := [],
                                    step := Password \<rparr>))
                  else FellThrough))
      else FellThrough)"

text \<open>Lines 67 to 77, entered when the status is 400 or more.\<close>

definition on_error_status :: "(string \<Rightarrow> jsval option) \<Rightarrow> response \<Rightarrow> page \<Rightarrow> page" where
  "on_error_status parse r s =
     (case (case parse (data r) of
              None \<Rightarrow> None
            | Some errorData \<Rightarrow> get_prop errorData ''detail'') of
        Some d \<Rightarrow>
          s\<lparr> error := (if truthy d then d else Str ''Error processing file.''),
             step := Configure \<rparr>
      | None \<Rightarrow>
          s\<lparr> error := Str ''Error processing file. Make sure the backend is running.'',
             step := Configure \<rparr>)"

text \<open>Lines 79 to 95. \<open>t0\<close> and \<open>t1\<close> are the two readings of \<^verbatim>\<open>Date.now()\<close>.\<close>

definition on_success :: "js_file \<Rightarrow> int \<Rightarrow> int \<Rightarrow> response \<Rightarrow> page \<Rightarrow> page" where
  "on_success f t0 t1 r s =
     (case createObjectURL \<lparr> blob_type = ''application/pdf'', blob_bytes = data r \<rparr> s of
        (url, s1) \<Rightarrow>
          (case s1\<lparr> redactedPdfUrl := Some url,
                    processingTime := Some (round_seconds (t1 - t0)) \<rparr> of
             s2 \<Rightarrow>
               (case map_of (headers r) ''content-disposition'' of
                  None \<Rightarrow> s2\<lparr> downloadFilename := strip_extension (name f) @ ''_redacted.pdf'' \<rparr>
                | Some disposition \<Rightarrow>
                    if disposition \<noteq> [] then
                      (case match_filename disposition of
                         Some g \<Rightarrow> s2\<lparr> downloadFilename := g \<rparr>
                       | None \<Rightarrow> s2)
                    else s2\<lparr> downloadFilename := strip_extension (name f) @ ''_redacted.pdf'' \<rparr>)
               \<lparr> step := Result \<rparr>))"

text \<open>Lines 96 to 100: the handler of everything thrown inside the \<^verbatim>\<open>try\<close>.\<close>

definition on_exception :: "page \<Rightarrow> page" where
  "on_exception s =
     s\<lparr> error := Str ''Error processing file. Make sure the backend server is running on port 8000.'',
        step := Configure \<rparr>"

definition after_response ::
  "(string \<Rightarrow> jsval option) \<Rightarrow> outcome \<Rightarrow> int \<Rightarrow> int \<Rightarrow> string option \<Rightarrow> js_file \<Rightarrow> page \<Rightarrow> page" where
  "after_response parse net t0 t1 password f s =
     (case axios_post net of
        None \<Rightarrow> on_exception s
      | Some r \<Rightarrow>
          (case on_locked parse password r s of
             Thrown \<Rightarrow> on_exception s
           | Returned s' \<Rightarrow> s'
           | FellThrough \<Rightarrow>
               if status r \<ge> 400 then on_error_status parse r s
               else on_success f t0 t1 r s))"

text \<open>Lines 39 to 44: the form that is posted.\<close>

definition build_form :: "js_file \<Rightarrow> string \<Rightarrow> string option \<Rightarrow> form_data" where
  "build_form f level password =
     [(''file'', FileValue f), (''redaction_level'', TextValue level)]
     @ (case password of
          None \<Rightarrow> []
        | Some p \<Rightarrow> if p \<noteq> [] then [(''password'', TextValue p)] else [])"

text \<open>
  \<^verbatim>\<open>doRedact\<close> (lines 30 to 101) returns the new state and the request it posted, if
  any. The call and its continuation after the two \<^verbatim>\<open>await\<close>s are taken as one step.
\<close>

definition doRedact ::
  "(string \<Rightarrow> jsval option) \<Rightarrow> outcome \<Rightarrow> int \<Rightarrow> int \<Rightarrow> string option \<Rightarrow> page
     \<Rightarrow> page \<times> form_data option" where
  "doRedact parse net t0 t1 password s =
     (case selectedFile s of
        None \<Rightarrow> (s, None)
      | Some f \<Rightarrow>
          (after_response parse net t0 t1 password f
             (s\<lparr> step := Processing, error := Null, passwordError := Null \<rparr>),
           Some (build_form f (redactionLevel s) password)))"

definition handleProceed ::
  "(string \<Rightarrow> jsval option) \<Rightarrow> outcome \<Rightarrow> int \<Rightarrow> int \<Rightarrow> page \<Rightarrow> page \<times> form_data option" where
  "handleProceed parse net t0 t1 s = doRedact parse net t0 t1 None s"

definition handlePasswordSubmit ::
  "(string \<Rightarrow> jsval option) \<Rightarrow> outcome \<Rightarrow> int \<Rightarrow> int \<Rightarrow> page \<Rightarrow> page \<times> form_data option" where
  "handlePasswordSubmit parse net t0 t1 s =
     (if trim (pdfPassword s) = []
      then (s\<lparr> passwordError := Str ''Please enter the password.'' \<rparr>, None)
      else doRedact parse net t0 t1 (Some (pdfPassword s)) s)"

definition handleReset :: "page \<Rightarrow> page" where
  "handleReset s =
     (case redactedPdfUrl s of None \<Rightarrow> s | Some u \<Rightarrow> revokeObjectURL u s)
       \<lparr> step := Upload, selectedFile := None, redactedPdfUrl := None,
         redactionLevel := ''medium'', error := Null, processingTime := None,
         pdfPassword := [], passwordError := Null \<rparr>"

text \<open>The conditions under which the password prompt and its error box are rendered
  (lines 229 and 244).\<close>

definition password_prompt_shown :: "page \<Rightarrow> bool" where
  "password_prompt_shown s = (step s = Password \<and> selectedFile s \<noteq> None)"

definition password_error_shown :: "page \<Rightarrow> bool" where
  "password_error_shown s = (password_prompt_shown s \<and> truthy (passwordError s))"



section \<open>The redaction levels of RedactionConfig.tsx\<close>

text \<open>
  The table \<^verbatim>\<open>levels\<close> (lines 13 to 53), without the fields that only style a card
  (icon, gradient, border, glow and colours).
\<close>

record level =
  level_id :: string
  title :: string
  description :: string
  items :: "string list"

definition levels :: "level list" where
  "levels =
     [ \<lparr> level_id = ''low'', title = ''Basic'', description = ''Aadhaar & PAN only'',
         items = [''Aadhaar Number'', ''PAN Card''] \<rparr>,
       \<lparr> level_id = ''medium'', title = ''Standard'', description = ''IDs + Contact Info'',
         items = [''Aadhaar'', ''PAN'', ''Passport'', ''DL'', ''Phone''] \<rparr>,
       \<lparr> level_id = ''high'', title = ''Maximum'', description = ''All PII detected & masked'',
         items = [''Aadhaar'', ''PAN'', ''Passport'', ''DL'', ''Voter ID'', ''Phone'', ''Email'',
                  ''DOB'', ''Bank A/C'', ''IFSC''] \<rparr> ]"

text \<open>
  The \<^verbatim>\<open>items\<close> of a level are labels that the card draws as pills (lines 107 to 116).
  The client does nothing else with them: what it sends to the backend is the
  \<^verbatim>\<open>level_id\<close> alone.
\<close>


section \<open>The sensitivity gate of the detector\<close>

text \<open>
  Modelled from the spec: the closed enumeration of PII types (section 3, PiiType). The
  detector that owns it is backend code, and no backend code is among the sources.
\<close>

datatype PiiType =
  Aadhaar | PAN | Passport | DrivingLicense | VoterID | Phone | Email | DOB | BankAccount | IFSC

text \<open>
  Modelled from the spec: the three sensitivity levels (section 3, SensitivityLevel), of
  the same absent detector.
\<close>

datatype SensitivityLevel = Low | Medium | High

text \<open>
  Modelled from the spec: "all ten types" of section 4.4, the ten of the enumeration. The
  gate of the PiiDetector that uses them is not among the sources.
\<close>

definition all_types :: "PiiType list" where
  "all_types = [Aadhaar, PAN, Passport, DrivingLicense, VoterID, Phone, Email, DOB,
                BankAccount, IFSC]"

text \<open>Modelled from the spec: "low: Aadhaar, PAN" (section 4.4), of the absent gate.\<close>

definition low_types :: "PiiType list" where
  "low_types = [Aadhaar, PAN]"

text \<open>
  Modelled from the spec: "medium: low and Passport, DrivingLicense, Phone" (section
  4.4), of the absent gate.
\<close>

definition medium_types :: "PiiType list" where
  "medium_types = low_types @ [Passport, DrivingLicense, Phone]"

text \<open>
  Modelled from the spec: the included-type set of each level (section 4.4), high being
  all ten types. The gate of the PiiDetector that applies it is not among the sources.
\<close>

fun included_types :: "SensitivityLevel \<Rightarrow> PiiType list" where
  "included_types Low = low_types"
| "included_types Medium = medium_types"
| "included_types High = all_types"

text \<open>
  Modelled from the spec: a type is active at a level when the level's included-type set
  contains it (section 4.4, "SensitivityLevel gates which types are active").
\<close>

definition active :: "SensitivityLevel \<Rightarrow> PiiType \<Rightarrow> bool" where
  "active lvl t = (t \<in> set (included_types lvl))"


section \<open>The user's actions on the page\<close>

text \<open>
  The states the page can be in: it starts in \<open>initial\<close>, and every action of the user
  runs one handler. The level cards call \<^verbatim>\<open>onSelectLevel(level.id)\<close> for a level of the
  table (RedactionConfig.tsx line 75), and \<^verbatim>\<open>onSelectLevel\<close> is \<^verbatim>\<open>setRedactionLevel\<close>
  (page.tsx line 221). No order of the actions is assumed, so the states of every
  rendering are among these.
\<close>

inductive reachable :: "page \<Rightarrow> bool" where
  start: "reachable initial"
| upload: "reachable s \<Longrightarrow> reachable (handleFileUpload f s)"
| select_level: "reachable s \<Longrightarrow> l \<in> set levels \<Longrightarrow> reachable (s\<lparr> redactionLevel := level_id l \<rparr>)"
| proceed: "reachable s \<Longrightarrow> reachable (fst (handleProceed parse net t0 t1 s))"
| type_password: "reachable s \<Longrightarrow> reachable (s\<lparr> pdfPassword := v \<rparr>)"
| submit_password: "reachable s \<Longrightarrow> reachable (fst (handlePasswordSubmit parse net t0 t1 s))"
| reset: "reachable s \<Longrightarrow> reachable (handleReset s)"


section \<open>The entity list of RedactionPreview\<close>

text \<open>
  A property that the caller may leave out (\<^verbatim>\<open>undefined\<close>) or pass as \<^verbatim>\<open>null\<close>, the
  default of a destructured parameter (\<^verbatim>\<open>piiEntities = []\<close>, which replaces
  \<^verbatim>\<open>undefined\<close> only) and the operator \<^verbatim>\<open>??\<close> (which replaces both).
\<close>

datatype 'a js_prop = PropUndefined | PropNull | PropValue 'a

fun default_parameter :: "'a \<Rightarrow> 'a js_prop \<Rightarrow> 'a js_prop" where
  "default_parameter d PropUndefined = PropValue d"
| "default_parameter d PropNull = PropNull"
| "default_parameter d (PropValue v) = PropValue v"

fun nullish_coalesce :: "'a js_prop \<Rightarrow> 'a \<Rightarrow> 'a" where
  "nullish_coalesce PropUndefined d = d"
| "nullish_coalesce PropNull d = d"
| "nullish_coalesce (PropValue v) d = v"

record pii_entity =
  entity_text :: string
  entity_label :: string
  entity_start :: int
  entity_end :: int

text \<open>
  What the card "Detected PII" shows (lines 63 to 79): the count of its heading and,
  below it, either the one paragraph or a row for every entity, in order. A row shows the
  label, the two offsets and the text of its entity.
\<close>

record pii_row =
  row_label :: string
  row_start :: int
  row_end :: int
  row_text :: string

datatype pii_listing = Paragraph string | Rows "pii_row list"

record pii_card =
  heading_count :: nat
  listing :: pii_listing

definition entity_row :: "pii_entity \<Rightarrow> pii_row" where
  "entity_row e = \<lparr> row_label = entity_label e, row_start = entity_start e,
                    row_end = entity_end e, row_text = entity_text e \<rparr>"

definition entities_of :: "pii_entity list js_prop \<Rightarrow> pii_entity list" where
  "entities_of piiEntities = nullish_coalesce (default_parameter [] piiEntities) []"

definition RedactionPreview :: "pii_entity list js_prop \<Rightarrow> pii_card" where
  "RedactionPreview piiEntities =
     \<lparr> heading_count = length (entities_of piiEntities),
       listing = (if length (entities_of piiEntities) = 0 then Paragraph ''No PII detected.''
                  else Rows (map entity_row (entities_of piiEntities))) \<rparr>"


section \<open>Sample inputs\<close>

text \<open>
  A file, a page on which it has been chosen, and a stand-in for \<^verbatim>\<open>JSON.parse\<close> on the
  four bodies used below (the theorems hold for every parser; the samples fix one).
\<close>

definition sample_file :: js_file where
  "sample_file = \<lparr> name = ''statement.PDF'', bytes = ''%PDF-1.7 locked'' \<rparr>"

definition sample_parse :: "string \<Rightarrow> jsval option" where
  "sample_parse t =
     (if t = ''needs password'' then
        Some (Obj [(''error'', Str ''password_required''),
                   (''message'', Str ''This PDF is password-protected.'')])
      else if t = ''wrong password'' then
        Some (Obj [(''error'', Str ''password_required''),
                   (''message'', Str ''Invalid password. Please try again.'')])
      else if t = ''unsupported'' then
        Some (Obj [(''detail'', Str ''Unsupported file type.'')])
      else if t = ''integrity'' then
        Some (Obj [(''detail'', Str ''Redaction integrity check failed.'')])
      else None)"

definition configured :: page where
  "configured = handleFileUpload sample_file initial"

definition redacted_once :: page where
  "redacted_once =
     fst (doRedact sample_parse
            (Response \<lparr> status = 200, headers = [], data = ''%PDF-1.7 clean'' \<rparr>)
            0 1200 None configured)"


section \<open>Properties\<close>

subsection \<open>The sensitivity levels\<close>

lemma PiiType_all: "(UNIV :: PiiType set) = set all_types"
proof -
  have "t \<in> set all_types" for t
    by (cases t) (simp_all add: all_types_def)
  then show ?thesis by blast
qed

text \<open>
  C3. The sensitivity levels activate exactly the specified sets of PII types: low
  activates Aadhaar and PAN; medium activates those of low and Passport, DrivingLicense
  and Phone; high activates all ten types, which are all the types there are. No type
  outside a level's set is active at that level.
\<close>

theorem active_types_exact:
  "{t. active Low t} = {Aadhaar, PAN}
   \<and> {t. active Medium t} = {t. active Low t} \<union> {Passport, DrivingLicense, Phone}
   \<and> {t. active Medium t} = {Aadhaar, PAN, Passport, DrivingLicense, Phone}
   \<and> {t. active High t}
       = {Aadhaar, PAN, Passport, DrivingLicense, VoterID, Phone, Email, DOB, BankAccount, IFSC}
   \<and> {t. active High t} = UNIV
   \<and> card {t. active Low t} = 2 \<and> card {t. active Medium t} = 5 \<and> card {t. active High t} = 10
   \<and> {t. \<not> active Low t}
       = {Passport, DrivingLicense, VoterID, Phone, Email, DOB, BankAccount, IFSC}
   \<and> {t. \<not> active Medium t} = {VoterID, Email, DOB, BankAccount, IFSC}
   \<and> {t. \<not> active High t} = {}"
proof -
  have low: "{t. active Low t} = {Aadhaar, PAN}"
    by (auto simp add: active_def low_types_def)
  have medium: "{t. active Medium t} = {Aadhaar, PAN, Passport, DrivingLicense, Phone}"
    by (auto simp add: active_def medium_types_def low_types_def)
  have high: "{t. active High t} = UNIV"
    by (simp add: active_def PiiType_all)
  have ten: "(UNIV :: PiiType set)
      = {Aadhaar, PAN, Passport, DrivingLicense, VoterID, Phone, Email, DOB, BankAccount, IFSC}"
    by (simp add: PiiType_all all_types_def)
  have not_low: "{t. \<not> active Low t}
      = {Passport, DrivingLicense, VoterID, Phone, Email, DOB, BankAccount, IFSC}"
  proof -
    have "{t. \<not> active Low t} = UNIV - {t. active Low t}" by auto
    also have "\<dots> = {Passport, DrivingLicense, VoterID, Phone, Email, DOB, BankAccount, IFSC}"
      unfolding low ten by auto
    finally show ?thesis .
  qed
  have not_medium: "{t. \<not> active Medium t} = {VoterID, Email, DOB, BankAccount, IFSC}"
  proof -
    have "{t. \<not> active Medium t} = UNIV - {t. active Medium t}" by auto
    also have "\<dots> = {VoterID, Email, DOB, BankAccount, IFSC}"
      unfolding medium ten by auto
    finally show ?thesis .
  qed
  have not_high: "{t. \<not> active High t} = {}"
    using high by auto
  have cards: "card {t. active Low t} = 2 \<and> card {t. active Medium t} = 5
      \<and> card {t. active High t} = 10"
    unfolding low medium high unfolding ten by simp
  show ?thesis
    using low medium high ten not_low not_medium not_high cards by auto
qed

subsection \<open>The request\<close>

text \<open>No branch of \<^verbatim>\<open>doRedact\<close> writes the level, so every reachable page holds a level of the table.\<close>

lemma after_response_level:
  "redactionLevel (after_response parse net t0 t1 password f s) = redactionLevel s"
  by (cases net)
     (auto simp add: after_response_def on_exception_def on_locked_def on_error_status_def
        on_success_def createObjectURL_def
        split: option.splits block.splits if_splits)

lemma doRedact_level:
  "redactionLevel (fst (doRedact parse net t0 t1 password s)) = redactionLevel s"
  by (simp add: doRedact_def after_response_level split: option.splits)

lemma reachable_level: "reachable s \<Longrightarrow> redactionLevel s \<in> set (map level_id levels)"
proof (induction rule: reachable.induct)
  case start
  show ?case by (simp add: initial_def levels_def)
next
  case (upload s f)
  then show ?case by (simp add: handleFileUpload_def)
next
  case (select_level s l)
  then show ?case by simp
next
  case (proceed s parse net t0 t1)
  then show ?case by (simp add: handleProceed_def doRedact_level)
next
  case (type_password s v)
  then show ?case by simp
next
  case (submit_password s parse net t0 t1)
  then show ?case by (simp add: handlePasswordSubmit_def doRedact_level)
next
  case (reset s)
  show ?case by (simp add: handleReset_def levels_def)
qed

text \<open>
  C6. Every request built by \<^verbatim>\<open>doRedact\<close> consists of exactly the document file and the
  declared level, which is one of low, medium and high, and of a password field if and
  only if the call was given a password that is not empty.
\<close>

theorem doRedact_request:
  assumes "reachable s" and "selectedFile s = Some f"
  shows "\<exists>level fields.
           snd (doRedact parse net t0 t1 password s)
             = Some ([(''file'', FileValue f), (''redaction_level'', TextValue level)] @ fields)
           \<and> level = redactionLevel s
           \<and> level \<in> {''low'', ''medium'', ''high''}
           \<and> fields = (case password of
                          None \<Rightarrow> []
                        | Some p \<Rightarrow> if p = [] then [] else [(''password'', TextValue p)])
           \<and> (''password'' \<in> fst ` set fields \<longleftrightarrow> (\<exists>p. password = Some p \<and> p \<noteq> []))"
proof -
  have "redactionLevel s \<in> set (map level_id levels)"
    using assms(1) by (rule reachable_level)
  then have "redactionLevel s \<in> {''low'', ''medium'', ''high''}"
    by (simp add: levels_def)
  then show ?thesis
    using assms(2) by (simp add: doRedact_def build_form_def split: option.splits)
qed

theorem doRedact_request_witness:
  "snd (doRedact sample_parse NoResponse 0 40 (Some ''guess'')
          (configured \<lparr> redactionLevel := ''high'' \<rparr>))
     = Some [(''file'', FileValue sample_file), (''redaction_level'', TextValue ''high''),
             (''password'', TextValue ''guess'')]
   \<and> snd (doRedact sample_parse NoResponse 0 40 (Some []) configured)
     = Some [(''file'', FileValue sample_file), (''redaction_level'', TextValue ''medium'')]"
proof -
  have chosen: "reachable configured"
    unfolding configured_def by (intro reachable.upload reachable.start)
  have "\<lparr> level_id = ''high'', title = ''Maximum'', description = ''All PII detected & masked'',
          items = [''Aadhaar'', ''PAN'', ''Passport'', ''DL'', ''Voter ID'', ''Phone'', ''Email'',
                   ''DOB'', ''Bank A/C'', ''IFSC''] \<rparr> \<in> set levels"
    by (simp add: levels_def)
  from reachable.select_level [OF chosen this]
  have high: "reachable (configured \<lparr> redactionLevel := ''high'' \<rparr>)"
    by simp
  have chosen_file: "selectedFile configured = Some sample_file"
    by (simp add: configured_def handleFileUpload_def)
  then have chosen_high: "selectedFile (configured \<lparr> redactionLevel := ''high'' \<rparr>) = Some sample_file"
    by simp
  show ?thesis
    using doRedact_request [OF high chosen_high, of sample_parse NoResponse 0 40 "Some ''guess''"]
      doRedact_request [OF chosen chosen_file, of sample_parse NoResponse 0 40 "Some []"]
    by (auto simp add: configured_def handleFileUpload_def initial_def)
qed

text \<open>
  C9. A call of \<^verbatim>\<open>doRedact\<close> while no file is selected returns at once: no request is
  posted and the state, with its step, error and password error, is the one it was.
\<close>

theorem doRedact_without_file:
  "selectedFile s = None \<Longrightarrow> doRedact parse net t0 t1 password s = (s, None)"
  by (simp add: doRedact_def)

theorem doRedact_without_file_witness:
  "selectedFile initial = None
   \<and> doRedact sample_parse NoResponse 0 40 (Some ''guess'') initial = (initial, None)"
  using doRedact_without_file [of initial sample_parse NoResponse 0 40 "Some ''guess''"]
  by (simp add: initial_def)


subsection \<open>Submitting a password\<close>

lemma trim_empty_iff: "trim s = [] \<longleftrightarrow> list_all is_whitespace s"
proof
  assume "trim s = []"
  then have rest: "\<forall>x\<in>set (dropWhile is_whitespace s). is_whitespace x"
    by (simp add: trim_def)
  have "dropWhile is_whitespace s = []"
  proof (rule ccontr)
    assume ne: "dropWhile is_whitespace s \<noteq> []"
    then have "\<not> is_whitespace (hd (dropWhile is_whitespace s))"
      by (rule hd_dropWhile)
    moreover have "hd (dropWhile is_whitespace s) \<in> set (dropWhile is_whitespace s)"
      using ne by simp
    ultimately show False
      using rest by blast
  qed
  then show "list_all is_whitespace s"
    by (simp add: list_all_iff)
next
  assume "list_all is_whitespace s"
  then show "trim s = []"
    by (auto simp add: trim_def list_all_iff dest: set_dropWhileD)
qed

text \<open>
  C8. When the password typed so far is empty or consists of white space only,
  \<^verbatim>\<open>handlePasswordSubmit\<close> sets the password error to "Please enter the password." and
  returns: no request is posted, and the step and every other cell keep their values.
\<close>

theorem handlePasswordSubmit_blank:
  "list_all is_whitespace (pdfPassword s) \<Longrightarrow>
   handlePasswordSubmit parse net t0 t1 s =
     (s\<lparr> passwordError := Str ''Please enter the password.'' \<rparr>, None)"
  by (simp add: handlePasswordSubmit_def trim_empty_iff)

theorem handlePasswordSubmit_blank_witness:
  "list_all is_whitespace [CHR 0x20, CHR 0x09]
   \<and> handlePasswordSubmit sample_parse NoResponse 0 40
        (configured \<lparr> step := Password, pdfPassword := [CHR 0x20, CHR 0x09] \<rparr>)
      = (configured \<lparr> step := Password, pdfPassword := [CHR 0x20, CHR 0x09],
                      passwordError := Str ''Please enter the password.'' \<rparr>, None)"
  using handlePasswordSubmit_blank
    [of "configured \<lparr> step := Password, pdfPassword := [CHR 0x20, CHR 0x09] \<rparr>"
        sample_parse NoResponse 0 40]
  by (simp add: is_whitespace_def)


subsection \<open>The preview of detected entities\<close>

text \<open>
  C10. \<^verbatim>\<open>RedactionPreview\<close> is total over a missing entity list: for \<^verbatim>\<open>undefined\<close>
  and for \<^verbatim>\<open>null\<close> the list is taken as empty, the count shown is 0 and the paragraph
  "No PII detected." is rendered; for every list that is not empty the count shown is
  its length and one row is rendered for each entity, in order.
\<close>

theorem RedactionPreview_total:
  "RedactionPreview PropUndefined = \<lparr> heading_count = 0, listing = Paragraph ''No PII detected.'' \<rparr>
   \<and> RedactionPreview PropNull = \<lparr> heading_count = 0, listing = Paragraph ''No PII detected.'' \<rparr>
   \<and> entities_of PropUndefined = [] \<and> entities_of PropNull = []
   \<and> (es \<noteq> [] \<longrightarrow>
        heading_count (RedactionPreview (PropValue es)) = length es
        \<and> (\<exists>rows. listing (RedactionPreview (PropValue es)) = Rows rows
                  \<and> length rows = length es
                  \<and> rows = map entity_row es))"
  by (simp add: RedactionPreview_def entities_of_def)

theorem RedactionPreview_total_witness:
  "heading_count (RedactionPreview (PropValue
      [\<lparr> entity_text = ''ABCDE1234F'', entity_label = ''PAN'', entity_start = 5, entity_end = 15 \<rparr>,
       \<lparr> entity_text = ''a@b.in'', entity_label = ''EMAIL'', entity_start = 20, entity_end = 26 \<rparr>])) = 2
   \<and> listing (RedactionPreview (PropValue
      [\<lparr> entity_text = ''ABCDE1234F'', entity_label = ''PAN'', entity_start = 5, entity_end = 15 \<rparr>,
       \<lparr> entity_text = ''a@b.in'', entity_label = ''EMAIL'', entity_start = 20, entity_end = 26 \<rparr>]))
     = Rows [\<lparr> row_label = ''PAN'', row_start = 5, row_end = 15, row_text = ''ABCDE1234F'' \<rparr>,
             \<lparr> row_label = ''EMAIL'', row_start = 20, row_end = 26, row_text = ''a@b.in'' \<rparr>]"
  using RedactionPreview_total
    [of "[\<lparr> entity_text = ''ABCDE1234F'', entity_label = ''PAN'', entity_start = 5, entity_end = 15 \<rparr>,
          \<lparr> entity_text = ''a@b.in'', entity_label = ''EMAIL'', entity_start = 20, entity_end = 26 \<rparr>]"]
  by (simp add: entity_row_def)


subsection \<open>A locked document\<close>


lemma on_locked_required:
  assumes "status r = 423" and "parse (data r) = Some errorData"
    and "get_prop errorData ''error'' = Some (Str ''password_required'')"
    and "get_prop errorData ''message'' = Some message"
  shows "on_locked parse password r s =
           Returned (s\<lparr> passwordError := (if truthy_string password then message else Null),
                        pdfPassword := [], step := Password \<rparr>)"
  using assms by (simp add: on_locked_def)

text \<open>
  C2. When the backend signals password-required (status 423 and a body whose
  \<^verbatim>\<open>error\<close> is \<^verbatim>\<open>password_required\<close>), the flow moves to the password step and no
  generic error is set. If the request carried no password the prompt is shown with no
  error (the password error is \<^verbatim>\<open>null\<close>); if it carried one, the password error is the
  message of the server, which the prompt displays.
\<close>

theorem password_required_prompt:
  assumes "selectedFile s = Some f"
    and "status r = 423"
    and "parse (data r) = Some errorData"
    and "get_prop errorData ''error'' = Some (Str ''password_required'')"
    and "get_prop errorData ''message'' = Some message"
    and "s' = fst (doRedact parse (Response r) t0 t1 password s)"
  shows "step s' = Password \<and> password_prompt_shown s' \<and> error s' = Null \<and> pdfPassword s' = []
         \<and> (\<not> truthy_string password \<longrightarrow> passwordError s' = Null \<and> \<not> password_error_shown s')
         \<and> (truthy_string password \<longrightarrow>
              passwordError s' = message \<and> (password_error_shown s' \<longleftrightarrow> truthy message))"
proof -
  have "s' = s\<lparr> step := Processing, error := Null, passwordError := Null \<rparr>
               \<lparr> passwordError := (if truthy_string password then message else Null),
                 pdfPassword := [], step := Password \<rparr>"
    using assms
    by (simp add: doRedact_def after_response_def validateStatus_def on_locked_required)
  then show ?thesis
    using assms(1) by (simp add: password_prompt_shown_def password_error_shown_def)
qed

theorem password_required_prompt_witness:
  "step (fst (doRedact sample_parse
                (Response \<lparr> status = 423, headers = [], data = ''needs password'' \<rparr>)
                0 40 None configured)) = Password
   \<and> passwordError (fst (doRedact sample_parse
                (Response \<lparr> status = 423, headers = [], data = ''needs password'' \<rparr>)
                0 40 None configured)) = Null
   \<and> step (fst (doRedact sample_parse
                (Response \<lparr> status = 423, headers = [], data = ''wrong password'' \<rparr>)
                0 40 (Some ''guess'') configured)) = Password
   \<and> passwordError (fst (doRedact sample_parse
                (Response \<lparr> status = 423, headers = [], data = ''wrong password'' \<rparr>)
                0 40 (Some ''guess'') configured))
       = Str ''Invalid password. Please try again.''
   \<and> password_error_shown (fst (doRedact sample_parse
                (Response \<lparr> status = 423, headers = [], data = ''wrong password'' \<rparr>)
                0 40 (Some ''guess'') configured))"
  using
    password_required_prompt
      [where s = configured and f = sample_file and parse = sample_parse
         and r = "\<lparr> status = 423, headers = [], data = ''needs password'' \<rparr>"
         and errorData = "Obj [(''error'', Str ''password_required''),
                              (''message'', Str ''This PDF is password-protected.'')]"
         and message = "Str ''This PDF is password-protected.''"
         and password = None and ?t0.0 = 0 and ?t1.0 = 40, OF _ _ _ _ _ refl]
    password_required_prompt
      [where s = configured and f = sample_file and parse = sample_parse
         and r = "\<lparr> status = 423, headers = [], data = ''wrong password'' \<rparr>"
         and errorData = "Obj [(''error'', Str ''password_required''),
                              (''message'', Str ''Invalid password. Please try again.'')]"
         and message = "Str ''Invalid password. Please try again.''"
         and password = "Some ''guess''" and ?t0.0 = 0 and ?t1.0 = 40, OF _ _ _ _ _ refl]
  by (simp add: configured_def handleFileUpload_def sample_parse_def)


subsection \<open>The suggested file name\<close>

text \<open>What the two regular expressions compute, in terms of the strings they are given.\<close>

lemma to_lower_dot: "to_lower c = CHR ''.'' \<longleftrightarrow> c = CHR ''.''"
proof -
  have "to_lower c \<noteq> CHR ''.''" if "65 \<le> (of_char c :: nat)" "(of_char c :: nat) \<le> 90"
  proof
    assume "to_lower c = CHR ''.''"
    then have "char_of ((of_char c :: nat) + 32) = CHR ''.''"
      using that by (simp add: to_lower_def)
    then have "(of_char (char_of ((of_char c :: nat) + 32)) :: nat) = of_char CHR ''.''"
      by simp
    then show False
      using that by simp
  qed
  then show ?thesis
    by (auto simp add: to_lower_def)
qed

lemma dot_to_lower: "CHR ''.'' = to_lower c \<longleftrightarrow> c = CHR ''.''"
  using to_lower_dot [of c] by auto

lemma lowered_dot: "CHR ''.'' \<in> set (map to_lower cs) \<longleftrightarrow> CHR ''.'' \<in> set cs"
  by (induction cs) (auto simp add: to_lower_dot dot_to_lower)

lemma extension_no_dot: "x \<in> set extensions \<Longrightarrow> CHR ''.'' \<notin> set x"
  by (auto simp add: extensions_def)

lemma strip_extension_recognised:
  "map to_lower ext \<in> set extensions \<Longrightarrow> strip_extension (base @ CHR ''.'' # ext) = base"
proof (induction base)
  case Nil
  then show ?case by simp
next
  case (Cons c base)
  have "CHR ''.'' \<in> set (map to_lower (base @ CHR ''.'' # ext))"
    unfolding lowered_dot by simp
  then have "map to_lower (base @ CHR ''.'' # ext) \<notin> set extensions"
    using extension_no_dot by blast
  with Cons show ?case by simp
qed

lemma strip_extension_unrecognised:
  "(\<And>base ext. n = base @ CHR ''.'' # ext \<Longrightarrow> map to_lower ext \<notin> set extensions)
   \<Longrightarrow> strip_extension n = n"
proof (induction n)
  case Nil
  show ?case by simp
next
  case (Cons c cs)
  have here: "\<not> (c = CHR ''.'' \<and> map to_lower cs \<in> set extensions)"
    using Cons.prems [of "[]" cs] by auto
  have "strip_extension cs = cs"
  proof (rule Cons.IH)
    fix base ext
    assume "cs = base @ CHR ''.'' # ext"
    then have "c # cs = (c # base) @ CHR ''.'' # ext" by simp
    then show "map to_lower ext \<notin> set extensions" by (rule Cons.prems)
  qed
  with here show ?case by auto
qed

lemma match_filename_quoted:
  assumes "n \<noteq> []" and "\<not> list_ex is_line_terminator n"
  shows "match_filename (''attachment; filename='' @ CHR 0x22 # n @ [CHR 0x22]) = Some n"
  using assms
  by (simp add: match_after_filename_def match_group_to_end_def)

lemma match_filename_bare:
  assumes "n \<noteq> []" and "\<not> list_ex is_line_terminator n"
    and "hd n \<noteq> CHR 0x22" and "last n \<noteq> CHR 0x22"
  shows "match_filename (''attachment; filename='' @ n) = Some n"
  using assms
  by (cases n) (simp_all add: match_after_filename_def match_group_to_end_def)

lemma after_response_success:
  assumes "status r < 400"
  shows "after_response parse (Response r) t0 t1 password f s = on_success f t0 t1 r s"
  using assms by (simp add: after_response_def validateStatus_def on_locked_def)

text \<open>
  C5 (amended). On a response of status below 400 the client reaches the result step
  holding an object URL for the bytes of the body, typed application/pdf, and a suggested
  file name. When the Content-Disposition header is absent or empty, the name is that of
  the selected file with a recognised extension (pdf, png, jpg, jpeg, bmp, tif, tiff, in
  any case) stripped and "_redacted.pdf" appended. When the header is present, not empty,
  and line 88's expression matches it, the name is the group it captures. When the
  header is present and the expression does not match, the name is left as it was.
\<close>

theorem success_filename:
  assumes "selectedFile s = Some f"
    and "status r < 400"
    and "s' = fst (doRedact parse (Response r) t0 t1 password s)"
  shows "step s' = Result
         \<and> redactedPdfUrl s' = Some (nextURL s)
         \<and> map_of (objectURLs s') (nextURL s)
             = Some \<lparr> blob_type = ''application/pdf'', blob_bytes = data r \<rparr>
         \<and> (map_of (headers r) ''content-disposition'' \<in> {None, Some []} \<longrightarrow>
              downloadFilename s' = strip_extension (name f) @ ''_redacted.pdf''
              \<and> (\<forall>base ext. name f = base @ CHR ''.'' # ext \<and> map to_lower ext \<in> set extensions
                     \<longrightarrow> downloadFilename s' = base @ ''_redacted.pdf''))
         \<and> (\<forall>d g. map_of (headers r) ''content-disposition'' = Some d \<and> d \<noteq> []
                    \<and> match_filename d = Some g \<longrightarrow> downloadFilename s' = g)
         \<and> (\<forall>d. map_of (headers r) ''content-disposition'' = Some d \<and> d \<noteq> []
                    \<and> match_filename d = None \<longrightarrow> downloadFilename s' = downloadFilename s)"
proof -
  have s': "s' = on_success f t0 t1 r (s\<lparr> step := Processing, error := Null, passwordError := Null \<rparr>)"
    using assms by (simp add: doRedact_def after_response_success)
  have stored: "step s' = Result \<and> redactedPdfUrl s' = Some (nextURL s)
      \<and> map_of (objectURLs s') (nextURL s)
          = Some \<lparr> blob_type = ''application/pdf'', blob_bytes = data r \<rparr>"
    unfolding s' by (simp add: on_success_def createObjectURL_def split: option.splits)
  have fallback: "downloadFilename s' = strip_extension (name f) @ ''_redacted.pdf''"
    if "map_of (headers r) ''content-disposition'' \<in> {None, Some []}"
    using that unfolding s' by (auto simp add: on_success_def createObjectURL_def)
  have stripped: "downloadFilename s' = base @ ''_redacted.pdf''"
    if "map_of (headers r) ''content-disposition'' \<in> {None, Some []}"
      and "name f = base @ CHR ''.'' # ext" and "map to_lower ext \<in> set extensions"
    for base ext
    using fallback [OF that(1)] strip_extension_recognised [OF that(3), of base] that(2)
    by simp
  have parsed: "downloadFilename s' = g"
    if "map_of (headers r) ''content-disposition'' = Some d" "d \<noteq> []" "match_filename d = Some g"
    for d g
    using that unfolding s' by (simp add: on_success_def createObjectURL_def)
  have kept: "downloadFilename s' = downloadFilename s"
    if "map_of (headers r) ''content-disposition'' = Some d" "d \<noteq> []" "match_filename d = None"
    for d
    using that unfolding s' by (simp add: on_success_def createObjectURL_def)
  show ?thesis
    using stored fallback stripped parsed kept by blast
qed

theorem success_filename_witness:
  "downloadFilename (fst (doRedact sample_parse
       (Response \<lparr> status = 200,
                   headers = [(''content-disposition'', ''attachment; filename=clean.pdf'')],
                   data = ''%PDF-1.7 clean'' \<rparr>) 0 1200 None configured)) = ''clean.pdf''
   \<and> downloadFilename (fst (doRedact sample_parse
       (Response \<lparr> status = 200, headers = [], data = ''%PDF-1.7 clean'' \<rparr>)
       0 1200 None configured)) = ''statement_redacted.pdf''
   \<and> map_of (objectURLs (fst (doRedact sample_parse
       (Response \<lparr> status = 200, headers = [], data = ''%PDF-1.7 clean'' \<rparr>)
       0 1200 None configured))) 0
       = Some \<lparr> blob_type = ''application/pdf'', blob_bytes = ''%PDF-1.7 clean'' \<rparr>"
proof -
  have stripped: "strip_extension ''statement.PDF'' = ''statement''"
    by code_simp
  show ?thesis
    using
      success_filename
        [where s = configured and f = sample_file and parse = sample_parse
           and r = "\<lparr> status = 200,
                       headers = [(''content-disposition'', ''attachment; filename=clean.pdf'')],
                       data = ''%PDF-1.7 clean'' \<rparr>"
           and password = None and ?t0.0 = 0 and ?t1.0 = 1200, OF _ _ refl]
      success_filename
        [where s = configured and f = sample_file and parse = sample_parse
           and r = "\<lparr> status = 200, headers = [], data = ''%PDF-1.7 clean'' \<rparr>"
           and password = None and ?t0.0 = 0 and ?t1.0 = 1200, OF _ _ refl]
    by (simp add: configured_def handleFileUpload_def sample_file_def initial_def stripped
          match_after_filename_def match_group_to_end_def is_line_terminator_def
          del: strip_extension.simps)
qed

text \<open>
  As the claim states it, the name is parsed from the header whenever the header is
  present. A header that names no file is present, yet the name that results is neither
  taken from it nor built from the name of the file: it is the name the page held before.
\<close>

theorem success_filename_counterexample:
  "map_of (headers \<lparr> status = 200, headers = [(''content-disposition'', ''attachment'')],
                     data = ''%PDF-1.7 clean'' \<rparr>) ''content-disposition'' = Some ''attachment''
   \<and> match_filename ''attachment'' = None
   \<and> downloadFilename (fst (doRedact sample_parse
         (Response \<lparr> status = 200, headers = [(''content-disposition'', ''attachment'')],
                     data = ''%PDF-1.7 clean'' \<rparr>) 0 1200 None configured))
       = ''redacted_document.pdf''"
  by (simp add: doRedact_def after_response_def validateStatus_def on_locked_def on_success_def
        createObjectURL_def configured_def handleFileUpload_def initial_def)


subsection \<open>Failures\<close>











subsection \<open>Starting over\<close>

lemma revoked_gone: "map_of (filter (\<lambda>e. fst e \<noteq> u) xs) u = None"
  by (induction xs) auto

text \<open>
  What \<^verbatim>\<open>handleReset\<close> does restore: eight of the nine cells, after revoking the object
  URL the page held.
\<close>

lemma handleReset_cells:
  "step (handleReset s) = Upload \<and> selectedFile (handleReset s) = None
   \<and> redactedPdfUrl (handleReset s) = None \<and> redactionLevel (handleReset s) = ''medium''
   \<and> error (handleReset s) = Null \<and> processingTime (handleReset s) = None
   \<and> pdfPassword (handleReset s) = [] \<and> passwordError (handleReset s) = Null
   \<and> (case redactedPdfUrl s of
         None \<Rightarrow> objectURLs (handleReset s) = objectURLs s
       | Some u \<Rightarrow> map_of (objectURLs (handleReset s)) u = None)
   \<and> downloadFilename (handleReset s) = downloadFilename s"
  by (simp add: handleReset_def revokeObjectURL_def revoked_gone split: option.splits)

text \<open>
  C7. After \<^verbatim>\<open>handleReset\<close> every cell of per-request state has its initial value, so
  that nothing of a request survives into the next one. The handler leaves
  \<^verbatim>\<open>downloadFilename\<close> out: after a redaction of statement.PDF and a reset, the cell
  still holds "statement_redacted.pdf" and not its initial "redacted_document.pdf", and
  the next document, answered with a Content-Disposition that names no file, is offered
  for download under the name of the earlier one.
\<close>

theorem handleReset_keeps_downloadFilename:
  "downloadFilename redacted_once = ''statement_redacted.pdf''
   \<and> downloadFilename (handleReset redacted_once) = ''statement_redacted.pdf''
   \<and> downloadFilename initial = ''redacted_document.pdf''
   \<and> downloadFilename (fst (doRedact sample_parse
         (Response \<lparr> status = 200, headers = [(''content-disposition'', ''attachment'')],
                     data = ''%PDF-1.7 other'' \<rparr>) 0 900 None
         (handleFileUpload \<lparr> name = ''passport.png'', bytes = ''PNG'' \<rparr>
            (handleReset redacted_once))))
       = ''statement_redacted.pdf''"
proof -
  have stripped: "strip_extension ''statement.PDF'' = ''statement''"
    by code_simp
  have once: "downloadFilename redacted_once = ''statement_redacted.pdf''"
    by (simp add: redacted_once_def doRedact_def after_response_def validateStatus_def
          on_locked_def on_success_def createObjectURL_def configured_def handleFileUpload_def
          initial_def sample_file_def stripped del: strip_extension.simps)
  have kept: "downloadFilename (handleReset redacted_once) = ''statement_redacted.pdf''"
    using once by (simp add: handleReset_def revokeObjectURL_def split: option.splits)
  have leaked: "downloadFilename (fst (doRedact sample_parse
         (Response \<lparr> status = 200, headers = [(''content-disposition'', ''attachment'')],
                     data = ''%PDF-1.7 other'' \<rparr>) 0 900 None
         (handleFileUpload \<lparr> name = ''passport.png'', bytes = ''PNG'' \<rparr>
            (handleReset redacted_once))))
       = ''statement_redacted.pdf''"
    using kept
    by (simp add: doRedact_def after_response_def validateStatus_def on_locked_def
          on_success_def createObjectURL_def handleFileUpload_def)
  show ?thesis
    using once kept leaked by (simp add: initial_def)
qed

end
